theory Spec2Isabelle
  imports Main
begin

section \<open>Strings, bytes and exceptions\<close>

text \<open>
  A Python \<open>str\<close> is modelled by the HOL string of its UTF-8 encoding, a Python
  \<open>bytes\<close> by the HOL string of its bytes. Concatenation, emptiness and equality of
  \<open>str\<close> values are those of the encodings.
\<close>

type_synonym bytes = string

datatype exn = ValueError | BinasciiError | LookupError | HeaderParseError

text \<open>Python truthiness of an optional string or list: neither \<open>None\<close> nor empty.\<close>

fun truthy :: "'a list option \<Rightarrow> bool" where
  "truthy None = False"
| "truthy (Some xs) = (xs \<noteq> [])"

section \<open>\<open>utils.py\<close>\<close>

subsection \<open>The standard library under \<open>decode_base64_text\<close>\<close>

text \<open>
  \<open>base64.urlsafe_b64decode\<close> of a \<open>str\<close>: the argument is encoded as ASCII
  (\<open>ValueError\<close> on any other character), \<open>-\<close> and \<open>_\<close> are translated to \<open>+\<close> and
  \<open>/\<close>, and \<open>binascii.a2b_base64\<close> decodes in its non-strict mode: characters outside
  the alphabet are discarded, a complete pad sequence ends the input, and an incomplete
  last quad is an error.
\<close>

definition is_ascii :: "char \<Rightarrow> bool" where
  "is_ascii c = (of_char c < (128::nat))"

definition urlsafe_translate :: "char \<Rightarrow> char" where
  "urlsafe_translate c = (if c = CHR ''-'' then CHR ''+'' else if c = CHR ''_'' then CHR ''/'' else c)"

definition table_a2b_base64 :: "char \<Rightarrow> nat option" where
  "table_a2b_base64 c =
     (let n = (of_char c :: nat) in
      if 65 \<le> n \<and> n \<le> 90 then Some (n - 65)
      else if 97 \<le> n \<and> n \<le> 122 then Some (n - 71)
      else if 48 \<le> n \<and> n \<le> 57 then Some (n + 4)
      else if c = CHR ''+'' then Some 62
      else if c = CHR ''/'' then Some 63
      else None)"

fun a2b_base64 :: "string \<Rightarrow> nat \<Rightarrow> nat \<Rightarrow> nat \<Rightarrow> bytes \<Rightarrow> exn + bytes" where
  "a2b_base64 [] quad_pos leftchar pads out =
     (if quad_pos \<noteq> 0 then Inl BinasciiError else Inr out)"
| "a2b_base64 (c # cs) quad_pos leftchar pads out =
     (if c = CHR ''='' then
        (if 2 \<le> quad_pos \<and> 4 \<le> quad_pos + (pads + 1) then Inr out
         else a2b_base64 cs quad_pos leftchar (if 2 \<le> quad_pos then pads + 1 else pads) out)
      else
        (case table_a2b_base64 c of
           None \<Rightarrow> a2b_base64 cs quad_pos leftchar pads out
         | Some v \<Rightarrow>
            (if quad_pos = 0 then a2b_base64 cs 1 v 0 out
             else if quad_pos = 1 then
               a2b_base64 cs 2 (v mod 16) 0 (out @ [char_of (leftchar * 4 + v div 16)])
             else if quad_pos = 2 then
               a2b_base64 cs 3 (v mod 4) 0 (out @ [char_of (leftchar * 16 + v div 4)])
             else a2b_base64 cs 0 0 0 (out @ [char_of (leftchar * 64 + v)]))))"

definition urlsafe_b64decode :: "string \<Rightarrow> exn + bytes" where
  "urlsafe_b64decode s =
     (if list_all is_ascii s then a2b_base64 (map urlsafe_translate s) 0 0 0 []
      else Inl ValueError)"

text \<open>
  \<open>bytes.decode("utf-8", errors="ignore")\<close>: every well-formed UTF-8 sequence is kept,
  every byte that starts none is dropped. On the encoding of the resulting \<open>str\<close> this
  is the removal of the ill-formed bytes.
\<close>

definition in_range :: "nat \<Rightarrow> nat \<Rightarrow> char \<Rightarrow> bool" where
  "in_range lo hi c = (lo \<le> of_char c \<and> of_char c \<le> hi)"

definition utf8_cont :: "char \<Rightarrow> bool" where
  "utf8_cont c = in_range 0x80 0xBF c"

definition utf8_seq2 :: "char \<Rightarrow> char \<Rightarrow> bool" where
  "utf8_seq2 a b = (in_range 0xC2 0xDF a \<and> utf8_cont b)"

definition utf8_seq3 :: "char \<Rightarrow> char \<Rightarrow> char \<Rightarrow> bool" where
  "utf8_seq3 a b c =
     (((in_range 0xE0 0xE0 a \<and> in_range 0xA0 0xBF b) \<or>
       (in_range 0xE1 0xEC a \<and> utf8_cont b) \<or>
       (in_range 0xED 0xED a \<and> in_range 0x80 0x9F b) \<or>
       (in_range 0xEE 0xEF a \<and> utf8_cont b)) \<and> utf8_cont c)"

definition utf8_seq4 :: "char \<Rightarrow> char \<Rightarrow> char \<Rightarrow> char \<Rightarrow> bool" where
  "utf8_seq4 a b c d =
     (((in_range 0xF0 0xF0 a \<and> in_range 0x90 0xBF b) \<or>
       (in_range 0xF1 0xF3 a \<and> utf8_cont b) \<or>
       (in_range 0xF4 0xF4 a \<and> in_range 0x80 0x8F b)) \<and> utf8_cont c \<and> utf8_cont d)"

fun utf8_decode_ignore :: "bytes \<Rightarrow> string" where
  "utf8_decode_ignore [] = []"
| "utf8_decode_ignore (a # bs) =
     (if is_ascii a then a # utf8_decode_ignore bs
      else (case bs of
          [] \<Rightarrow> []
        | b # cs \<Rightarrow>
           (if utf8_seq2 a b then a # b # utf8_decode_ignore cs
            else (case cs of
                [] \<Rightarrow> utf8_decode_ignore bs
              | c # ds \<Rightarrow>
                 (if utf8_seq3 a b c then a # b # c # utf8_decode_ignore ds
                  else (case ds of
                      [] \<Rightarrow> utf8_decode_ignore bs
                    | d # es \<Rightarrow>
                       (if utf8_seq4 a b c d then a # b # c # d # utf8_decode_ignore es
                        else utf8_decode_ignore bs)))))))"

subsection \<open>\<open>decode_base64_text\<close>\<close>

definition decode_base64_text :: "string \<Rightarrow> string" where
  "decode_base64_text data =
     (case urlsafe_b64decode data of
        Inr bs \<Rightarrow> utf8_decode_ignore bs
      | Inl e \<Rightarrow> [])"

subsection \<open>\<open>decode_rfc2047_filename\<close>\<close>

text \<open>
  \<open>email.header.decode_header\<close> and the codec registry behind \<open>bytes.decode\<close> are
  parameters of the model. \<open>decode_header\<close> returns the segments of a header, each a
  \<open>str\<close> or a \<open>bytes\<close> with an optional charset, or raises;
  \<open>codecs_decode enc bs\<close> is \<open>bs.decode(enc, errors="ignore")\<close>, which raises
  \<open>LookupError\<close> for an encoding the registry does not know.
\<close>

datatype hpart = Str string | Bytes bytes

record stdlib =
  decode_header :: "string \<Rightarrow> exn + (hpart \<times> string option) list"
  codecs_decode :: "string \<Rightarrow> bytes \<Rightarrow> exn + string"

text \<open>The loop over \<open>decoded_parts\<close>, with \<open>decoded_strings\<close> as accumulator.\<close>

fun decode_parts :: "stdlib \<Rightarrow> (hpart \<times> string option) list \<Rightarrow> string list \<Rightarrow> exn + string list" where
  "decode_parts L [] decoded_strings = Inr decoded_strings"
| "decode_parts L ((Bytes bs, encoding) # rest) decoded_strings =
     (case codecs_decode L (if truthy encoding then the encoding else ''utf-8'') bs of
        Inl e \<Rightarrow> Inl e
      | Inr s \<Rightarrow> decode_parts L rest (decoded_strings @ [s]))"
| "decode_parts L ((Str s, encoding) # rest) decoded_strings =
     decode_parts L rest (decoded_strings @ [s])"

definition decode_rfc2047_filename :: "stdlib \<Rightarrow> string \<Rightarrow> string" where
  "decode_rfc2047_filename L filename =
     (case decode_header L filename of
        Inl e \<Rightarrow> filename
      | Inr decoded_parts \<Rightarrow>
         (case decode_parts L decoded_parts [] of
            Inl e \<Rightarrow> filename
          | Inr decoded_strings \<Rightarrow> concat decoded_strings))"

section \<open>\<open>models.py\<close>\<close>

subsection \<open>Data model\<close>

text \<open>
  The three classes keep their names. A field name is one constant of the theory, so the
  fields of \<open>Attachment\<close> carry the prefix \<open>a_\<close>, and \<open>size\<close> of
  \<open>PayloadBody\<close> is \<open>b_size\<close>.
\<close>

record Attachment =
  a_attachment_id :: string
  a_file_name :: string
  a_mime_type :: string
  a_size :: int

record PayloadBody =
  attachment_id :: "string option"
  data :: "string option"
  b_size :: int

text \<open>A header is a \<open>dict[str, str]\<close>; \<open>dict_get\<close> is \<open>dict.get\<close> with a default.\<close>

type_synonym header = "string \<rightharpoonup> string"

definition dict_get :: "('k \<rightharpoonup> 'v) \<Rightarrow> 'k \<Rightarrow> 'v \<Rightarrow> 'v" where
  "dict_get d k dflt = (case d k of None \<Rightarrow> dflt | Some v \<Rightarrow> v)"

datatype MessagePayload =
  MessagePayload
    (mime_type: string)
    (filename: "string option")
    (body: PayloadBody)
    (parts: "MessagePayload list option")
    (headers: "header list option")

subsection \<open>String operations of the header resolver\<close>

text \<open>
  \<open>str.lower\<close>, modelled on the ASCII letters. A name that holds any other character
  does not lower to \<open>content-disposition\<close> or \<open>content-type\<close>, so the two lookups of
  the resolver see the same entries.
\<close>

definition ascii_lower :: "char \<Rightarrow> char" where
  "ascii_lower c = (if in_range 65 90 c then char_of (of_char c + (32::nat)) else c)"

definition str_lower :: "string \<Rightarrow> string" where
  "str_lower s = map ascii_lower s"

text \<open>
  \<open>str.strip\<close> removes the white space of Unicode at both ends: U+0009 to U+000D,
  U+001C to U+0020, U+0085, U+00A0, U+1680, U+2000 to U+200A, U+2028, U+2029, U+202F,
  U+205F and U+3000, here in their UTF-8 encodings.
\<close>

definition space1 :: "char \<Rightarrow> bool" where
  "space1 a = (in_range 0x09 0x0D a \<or> in_range 0x1C 0x20 a)"

definition space2 :: "char \<Rightarrow> char \<Rightarrow> bool" where
  "space2 a b = (a = CHR 0xC2 \<and> (b = CHR 0x85 \<or> b = CHR 0xA0))"

definition space3 :: "char \<Rightarrow> char \<Rightarrow> char \<Rightarrow> bool" where
  "space3 a b c =
     ((a = CHR 0xE1 \<and> b = CHR 0x9A \<and> c = CHR 0x80) \<or>
      (a = CHR 0xE2 \<and> b = CHR 0x80 \<and>
         (in_range 0x80 0x8A c \<or> c = CHR 0xA8 \<or> c = CHR 0xA9 \<or> c = CHR 0xAF)) \<or>
      (a = CHR 0xE2 \<and> b = CHR 0x81 \<and> c = CHR 0x9F) \<or>
      (a = CHR 0xE3 \<and> b = CHR 0x80 \<and> c = CHR 0x80))"

fun str_lstrip :: "string \<Rightarrow> string" where
  "str_lstrip [] = []"
| "str_lstrip (a # bs) =
     (if space1 a then str_lstrip bs
      else (case bs of
          [] \<Rightarrow> a # bs
        | b # cs \<Rightarrow>
           (if space2 a b then str_lstrip cs
            else (case cs of
                [] \<Rightarrow> a # bs
              | c # ds \<Rightarrow> (if space3 a b c then str_lstrip ds else a # bs)))))"

text \<open>The same from the right end, on the reversed string.\<close>

fun rstrip_rev :: "string \<Rightarrow> string" where
  "rstrip_rev [] = []"
| "rstrip_rev (c # bs) =
     (if space1 c then rstrip_rev bs
      else (case bs of
          [] \<Rightarrow> c # bs
        | b # as \<Rightarrow>
           (if space2 b c then rstrip_rev as
            else (case as of
                [] \<Rightarrow> c # bs
              | a # ds \<Rightarrow> (if space3 a b c then rstrip_rev ds else c # bs)))))"

definition str_rstrip :: "string \<Rightarrow> string" where
  "str_rstrip s = rev (rstrip_rev (rev s))"

definition str_strip :: "string \<Rightarrow> string" where
  "str_strip s = str_rstrip (str_lstrip s)"

text \<open>
  \<open>re.search(r'KW[*]?=(?:"([^"]+)"|([^;]+))', s, re.IGNORECASE)\<close> for a keyword
  \<open>KW\<close> of lower-case ASCII letters. A letter of the keyword matches itself in either
  case; \<open>i\<close> also matches U+0130 and U+0131, as \<open>IGNORECASE\<close> has it on \<open>str\<close>
  patterns, and no other letter of \<open>filename\<close> has a further match. The result is the
  match object, as its two groups.
\<close>

fun match_literal :: "char \<Rightarrow> string \<Rightarrow> string option" where
  "match_literal p [] = None"
| "match_literal p (c # cs) =
     (if ascii_lower c = p then Some cs
      else if p = CHR ''i'' \<and> c = CHR 0xC4 then
        (case cs of
           [] \<Rightarrow> None
         | d # ds \<Rightarrow> (if d = CHR 0xB0 \<or> d = CHR 0xB1 then Some ds else None))
      else None)"

fun match_keyword :: "string \<Rightarrow> string \<Rightarrow> string option" where
  "match_keyword [] s = Some s"
| "match_keyword (p # ps) s =
     (case match_literal p s of None \<Rightarrow> None | Some r \<Rightarrow> match_keyword ps r)"

type_synonym re_match = "string option \<times> string option"

definition match_value :: "string \<Rightarrow> re_match option" where
  "match_value s =
     (let quoted =
        (case s of
           [] \<Rightarrow> None
         | q # r \<Rightarrow>
            (if q = CHR 0x22 \<and> takeWhile (\<lambda>c. c \<noteq> CHR 0x22) r \<noteq> [] \<and>
                dropWhile (\<lambda>c. c \<noteq> CHR 0x22) r \<noteq> []
             then Some (takeWhile (\<lambda>c. c \<noteq> CHR 0x22) r) else None))
      in case quoted of
           Some g \<Rightarrow> Some (Some g, None)
         | None \<Rightarrow>
            (if takeWhile (\<lambda>c. c \<noteq> CHR '';'') s \<noteq> []
             then Some (None, Some (takeWhile (\<lambda>c. c \<noteq> CHR '';'') s)) else None))"

definition match_here :: "string \<Rightarrow> string \<Rightarrow> re_match option" where
  "match_here kw s =
     (case match_keyword kw s of
        None \<Rightarrow> None
      | Some r \<Rightarrow>
         (case (case r of [] \<Rightarrow> r | c # t \<Rightarrow> if c = CHR ''*'' then t else r) of
            [] \<Rightarrow> None
          | e # v \<Rightarrow> (if e = CHR ''='' then match_value v else None)))"

fun re_search :: "string \<Rightarrow> string \<Rightarrow> re_match option" where
  "re_search kw [] = match_here kw []"
| "re_search kw (c # cs) =
     (case match_here kw (c # cs) of Some m \<Rightarrow> Some m | None \<Rightarrow> re_search kw cs)"

text \<open>\<open>match.group(1) or match.group(2)\<close>.\<close>

definition group1_or_group2 :: "re_match \<Rightarrow> string option" where
  "group1_or_group2 m = (if truthy (fst m) then fst m else snd m)"

subsection \<open>Methods of \<open>MessagePayload\<close>\<close>

definition is_text_plain :: "MessagePayload \<Rightarrow> bool" where
  "is_text_plain p = (mime_type p = ''text/plain'')"

definition is_text_html :: "MessagePayload \<Rightarrow> bool" where
  "is_text_html p = (mime_type p = ''text/html'')"

definition decode_body_data :: "MessagePayload \<Rightarrow> string" where
  "decode_body_data p =
     (if truthy (data (body p)) then decode_base64_text (the (data (body p))) else [])"

text \<open>The dict comprehension over the headers: a later entry replaces an earlier one.\<close>

definition header_dict :: "header list \<Rightarrow> (string \<rightharpoonup> string)" where
  "header_dict hs =
     foldl (\<lambda>d h. d(str_lower (dict_get h ''name'' []) \<mapsto> dict_get h ''value'' [])) Map.empty hs"

text \<open>One of the two header rules: the \<open>if\<close> block that may return a file name.\<close>

definition header_rule :: "stdlib \<Rightarrow> string \<Rightarrow> string \<Rightarrow> string option" where
  "header_rule L kw v =
     (if v \<noteq> [] then
        (case re_search kw v of
           None \<Rightarrow> None
         | Some m \<Rightarrow>
            (if truthy (group1_or_group2 m)
             then Some (decode_rfc2047_filename L (str_strip (the (group1_or_group2 m))))
             else None))
      else None)"

definition extract_filename_from_headers :: "stdlib \<Rightarrow> MessagePayload \<Rightarrow> string option" where
  "extract_filename_from_headers L p =
     (if \<not> truthy (headers p) then None
      else
        (let d = header_dict (the (headers p)) in
         case header_rule L ''filename'' (dict_get d ''content-disposition'' []) of
           Some f \<Rightarrow> Some f
         | None \<Rightarrow>
            (case header_rule L ''name'' (dict_get d ''content-type'' []) of
               Some f \<Rightarrow> Some f
             | None \<Rightarrow> None)))"

definition create_attachment :: "stdlib \<Rightarrow> MessagePayload \<Rightarrow> Attachment option" where
  "create_attachment L p =
     (if \<not> truthy (attachment_id (body p)) then None
      else
        (let fname =
           (if \<not> truthy (filename p) \<and> truthy (headers p)
            then extract_filename_from_headers L p else filename p)
         in if \<not> truthy fname then None
            else Some \<lparr>a_attachment_id = the (attachment_id (body p)),
                       a_file_name = the fname,
                       a_mime_type = mime_type p,
                       a_size = b_size (body p)\<rparr>))"

text \<open>
  \<open>extract_body_text\<close>, with the loop over \<open>self.parts\<close> as \<open>body_loop\<close>: its
  arguments are the parts still to visit and the accumulators \<open>plain_text\<close> and
  \<open>html_text\<close>, its result is what the method returns.
\<close>

fun extract_body_text :: "MessagePayload \<Rightarrow> string"
  and body_loop :: "MessagePayload list \<Rightarrow> string \<Rightarrow> string \<Rightarrow> string" where
  "extract_body_text (MessagePayload mt fn b ps hs) =
     (case ps of
        Some (q # qs) \<Rightarrow> body_loop (q # qs) [] []
      | _ \<Rightarrow>
         (if mt = ''text/plain'' \<or> mt = ''text/html''
          then decode_body_data (MessagePayload mt fn b ps hs) else []))"
| "body_loop [] plain_text html_text = (if plain_text \<noteq> [] then plain_text else html_text)"
| "body_loop (part # rest) plain_text html_text =
     (if truthy (attachment_id (body part)) then body_loop rest plain_text html_text
      else
        (let part_text = extract_body_text part in
         if is_text_plain part then body_loop rest (plain_text @ part_text) html_text
         else if is_text_html part then body_loop rest plain_text (html_text @ part_text)
         else if part_text \<noteq> [] then
           (if plain_text = [] \<and> html_text = [] then part_text
            else body_loop rest (plain_text @ part_text) html_text)
         else body_loop rest plain_text html_text))"

text \<open>
  \<open>extract_attachments\<close>, with the loop over \<open>self.parts\<close> as \<open>attachments_loop\<close>,
  which extends the list \<open>attachments\<close>.
\<close>

fun extract_attachments :: "stdlib \<Rightarrow> MessagePayload \<Rightarrow> Attachment list"
  and attachments_loop :: "stdlib \<Rightarrow> MessagePayload list \<Rightarrow> Attachment list \<Rightarrow> Attachment list" where
  "extract_attachments L (MessagePayload mt fn b ps hs) =
     (let attachments =
        (case create_attachment L (MessagePayload mt fn b ps hs) of
           Some attachment \<Rightarrow> [attachment]
         | None \<Rightarrow> [])
      in case ps of
           Some (q # qs) \<Rightarrow> attachments_loop L (q # qs) attachments
         | _ \<Rightarrow> attachments)"
| "attachments_loop L [] attachments = attachments"
| "attachments_loop L (sub_part # rest) attachments =
     attachments_loop L rest (attachments @ extract_attachments L sub_part)"

section \<open>The specification's notions\<close>

text \<open>The child parts of a node: none when \<open>parts\<close> is absent.\<close>

definition children :: "MessagePayload \<Rightarrow> MessagePayload list" where
  "children p = (case parts p of None \<Rightarrow> [] | Some ps \<Rightarrow> ps)"

text \<open>The nodes of a tree in depth-first, left-to-right order, a node before its children.\<close>

fun preorder :: "MessagePayload \<Rightarrow> MessagePayload list"
  and preorder_list :: "MessagePayload list \<Rightarrow> MessagePayload list" where
  "preorder (MessagePayload mt fn b ps hs) =
     MessagePayload mt fn b ps hs # (case ps of None \<Rightarrow> [] | Some qs \<Rightarrow> preorder_list qs)"
| "preorder_list [] = []"
| "preorder_list (q # qs) = preorder q @ preorder_list qs"

text \<open>
  Attachment eligibility in the specification's words: the attachment id is present, and
  a file name resolves, from the node's \<open>filename\<close> if that is non-empty and from the
  Header Filename Resolver otherwise. Present means a non-empty value.
\<close>

definition resolved_filename :: "stdlib \<Rightarrow> MessagePayload \<Rightarrow> string option" where
  "resolved_filename L p =
     (if truthy (filename p) then filename p else extract_filename_from_headers L p)"

definition attachment_eligible :: "stdlib \<Rightarrow> MessagePayload \<Rightarrow> bool" where
  "attachment_eligible L p =
     (truthy (attachment_id (body p)) \<and> truthy (resolved_filename L p))"

text \<open>The child test of the pass of \<open>extract_body_text\<close>: the \<open>continue\<close> of the loop.\<close>

definition skipped :: "MessagePayload \<Rightarrow> bool" where
  "skipped part = truthy (attachment_id (body part))"

text \<open>
  The reference recursion of the specification for a container: a state of the pass is the
  two accumulators, or the text returned by the short-circuit.
\<close>

datatype pass_state = Running string string | Returned string

fun pass_step :: "pass_state \<Rightarrow> MessagePayload \<Rightarrow> pass_state" where
  "pass_step (Returned t) child = Returned t"
| "pass_step (Running plain html) child =
     (let child_text = extract_body_text child in
      if mime_type child = ''text/plain'' then Running (plain @ child_text) html
      else if mime_type child = ''text/html'' then Running plain (html @ child_text)
      else if child_text \<noteq> [] then
        (if plain = [] \<and> html = [] then Returned child_text
         else Running (plain @ child_text) html)
      else Running plain html)"

fun pass_result :: "pass_state \<Rightarrow> string" where
  "pass_result (Returned t) = t"
| "pass_result (Running plain html) =
     (if plain \<noteq> [] then plain else if html \<noteq> [] then html else [])"

definition reference_body_text :: "MessagePayload \<Rightarrow> string" where
  "reference_body_text node =
     (if children node \<noteq> [] then
        pass_result (foldl pass_step (Running [] []) (filter (\<lambda>c. \<not> skipped c) (children node)))
      else if (mime_type node = ''text/plain'' \<or> mime_type node = ''text/html'') \<and>
              data (body node) \<noteq> None
        then decode_base64_text (the (data (body node)))
      else [])"

text \<open>
  The Header Filename Resolver in the specification's words: the value of the last header
  whose name is the given one up to case, and the value captured by the parameter pattern.
\<close>

definition last_header_value :: "header list \<Rightarrow> string \<Rightarrow> string" where
  "last_header_value hs k =
     (let named = filter (\<lambda>h. str_lower (dict_get h ''name'' []) = k) hs
      in if named = [] then [] else dict_get (last named) ''value'' [])"

definition captured :: "string \<Rightarrow> string \<Rightarrow> string option" where
  "captured kw v =
     (case re_search kw v of
        None \<Rightarrow> None
      | Some m \<Rightarrow> (case fst m of Some quoted \<Rightarrow> Some quoted | None \<Rightarrow> snd m))"

definition reference_resolver :: "stdlib \<Rightarrow> header list \<Rightarrow> string option" where
  "reference_resolver L hs =
     (case captured ''filename'' (last_header_value hs ''content-disposition'') of
        Some v \<Rightarrow> Some (decode_rfc2047_filename L (str_strip v))
      | None \<Rightarrow>
         (case captured ''name'' (last_header_value hs ''content-type'') of
            Some v \<Rightarrow> Some (decode_rfc2047_filename L (str_strip v))
          | None \<Rightarrow> None))"

text \<open>
  The Filename Decoder. \<open>segment_text\<close> is what the code does with one segment of
  \<open>decode_header\<close>; \<open>segment_text_fallback\<close> is the specification's reading, in which
  a charset that is absent or not supported falls back to lossy UTF-8.
\<close>

fun segment_text :: "stdlib \<Rightarrow> hpart \<times> string option \<Rightarrow> exn + string" where
  "segment_text L (Str s, charset) = Inr s"
| "segment_text L (Bytes bs, charset) =
     codecs_decode L (if truthy charset then the charset else ''utf-8'') bs"

fun segment_text_fallback :: "stdlib \<Rightarrow> hpart \<times> string option \<Rightarrow> string" where
  "segment_text_fallback L (Str s, charset) = s"
| "segment_text_fallback L (Bytes bs, charset) =
     (if truthy charset then
        (case codecs_decode L (the charset) bs of
           Inr s \<Rightarrow> s
         | Inl e \<Rightarrow> utf8_decode_ignore bs)
      else utf8_decode_ignore bs)"

definition reference_filename_decoder :: "stdlib \<Rightarrow> string \<Rightarrow> string" where
  "reference_filename_decoder L raw =
     (case decode_header L raw of
        Inl e \<Rightarrow> raw
      | Inr segments \<Rightarrow> concat (map (segment_text_fallback L) segments))"

section \<open>Example inputs\<close>

text \<open>
  A standard library for the examples. It is CPython's on the headers the examples use:
  \<open>decode_header\<close> returns a header without an encoded-word as one \<open>str\<close> segment
  with no charset, the encoded-word \<open>=?x-unknown?b?YWJj?=\<close> as the bytes \<open>abc\<close>
  in the charset \<open>x-unknown\<close>, and the encoded-word \<open>=?utf-8?b?w6kucGRm?=\<close> as
  the six bytes of \<open>.pdf\<close> after U+00E9 in the charset \<open>utf-8\<close>; the registry knows
  \<open>utf-8\<close> and has no codec \<open>x-unknown\<close>.
\<close>

definition example_lib :: stdlib where
  "example_lib =
     \<lparr>decode_header =
        (\<lambda>h. if h = ''=?x-unknown?b?YWJj?=''
             then Inr [(Bytes ''abc'', Some ''x-unknown'')]
             else if h = ''=?utf-8?b?w6kucGRm?=''
             then Inr [(Bytes (CHR 0xC3 # CHR 0xA9 # ''.pdf''), Some ''utf-8'')]
             else Inr [(Str h, None)]),
      codecs_decode =
        (\<lambda>enc bs. if enc = ''utf-8'' then Inr (utf8_decode_ignore bs) else Inl LookupError)\<rparr>"

text \<open>A part without children, file name or headers, and a container of parts.\<close>

definition leaf :: "string \<Rightarrow> string option \<Rightarrow> string option \<Rightarrow> MessagePayload" where
  "leaf mt aid d = MessagePayload mt None \<lparr>attachment_id = aid, data = d, b_size = 0\<rparr> None None"

definition container :: "string \<Rightarrow> MessagePayload list \<Rightarrow> MessagePayload" where
  "container mt ps =
     MessagePayload mt None \<lparr>attachment_id = None, data = None, b_size = 0\<rparr> (Some ps) None"

text \<open>A named file part, and a header entry with its two keys.\<close>

definition file_part :: "string \<Rightarrow> string \<Rightarrow> string \<Rightarrow> int \<Rightarrow> MessagePayload" where
  "file_part mt fname aid n =
     MessagePayload mt (Some fname) \<lparr>attachment_id = Some aid, data = None, b_size = n\<rparr> None None"

definition header :: "string \<Rightarrow> string \<Rightarrow> header" where
  "header n v = [''name'' \<mapsto> n, ''value'' \<mapsto> v]"


section \<open>The Byte Decoder\<close>

lemma decode_base64_text_Nil: "decode_base64_text [] = []"
  by (simp add: decode_base64_text_def urlsafe_b64decode_def)

text \<open>
  C8. For every input string, \<open>decode_base64_text\<close> returns the lossy UTF-8 decoding of
  the URL-safe base64 decoding when that succeeds and the empty string when it raises;
  the result is a string in both cases, so nothing is raised. The empty string is mapped
  to the empty string, and \<open>invalid_base64!!!\<close>, whose fourteen alphabet characters
  leave an incomplete quad, to the empty string. In \<open>_0hp\<close> the byte \<open>0xFF\<close>, which
  is no UTF-8, is dropped.
\<close>

theorem decode_base64_text_degrades:
  "decode_base64_text d =
     (case urlsafe_b64decode d of Inr bs \<Rightarrow> utf8_decode_ignore bs | Inl e \<Rightarrow> [])
   \<and> decode_base64_text [] = []
   \<and> urlsafe_b64decode ''invalid_base64!!!'' = Inl BinasciiError
   \<and> decode_base64_text ''invalid_base64!!!'' = []
   \<and> decode_base64_text ''SGVsbG8sIFdvcmxkIQ=='' = ''Hello, World!''
   \<and> urlsafe_b64decode ''_0hp'' = Inr (CHR 0xFF # ''Hi'')
   \<and> decode_base64_text ''_0hp'' = ''Hi''"
proof (intro conjI)
  show "decode_base64_text d =
     (case urlsafe_b64decode d of Inr bs \<Rightarrow> utf8_decode_ignore bs | Inl e \<Rightarrow> [])"
    by (simp add: decode_base64_text_def)
  show "decode_base64_text [] = []"
    by (simp add: decode_base64_text_def urlsafe_b64decode_def)
  show "urlsafe_b64decode ''invalid_base64!!!'' = Inl BinasciiError"
    by code_simp
  show "decode_base64_text ''invalid_base64!!!'' = []"
    by code_simp
  show "decode_base64_text ''SGVsbG8sIFdvcmxkIQ=='' = ''Hello, World!''"
    by code_simp
  show "urlsafe_b64decode ''_0hp'' = Inr (CHR 0xFF # ''Hi'')"
    by code_simp
  show "decode_base64_text ''_0hp'' = ''Hi''"
    by code_simp
qed

section \<open>The Filename Decoder\<close>

lemma decode_parts_step:
  "decode_parts L (g # rest) acc =
     (case segment_text L g of Inl e \<Rightarrow> Inl e | Inr s \<Rightarrow> decode_parts L rest (acc @ [s]))"
proof -
  obtain part cs where g: "g = (part, cs)" by (cases g)
  show ?thesis unfolding g by (cases part) simp_all
qed

lemma decode_parts_all:
  "list_all (\<lambda>g. \<not> isl (segment_text L g)) segs \<Longrightarrow>
   decode_parts L segs acc = Inr (acc @ map (\<lambda>g. projr (segment_text L g)) segs)"
proof (induction segs arbitrary: acc)
  case Nil
  then show ?case by simp
next
  case (Cons g segs)
  from Cons.prems obtain s where s: "segment_text L g = Inr s"
    by (cases "segment_text L g") auto
  from Cons.prems have "list_all (\<lambda>g. \<not> isl (segment_text L g)) segs" by simp
  from Cons.IH [OF this, of "acc @ [s]"] s show ?case
    by (simp add: decode_parts_step del: decode_parts.simps)
qed

lemma decode_parts_some_fails:
  "\<not> list_all (\<lambda>g. \<not> isl (segment_text L g)) segs \<Longrightarrow> isl (decode_parts L segs acc)"
proof (induction segs arbitrary: acc)
  case Nil
  then show ?case by simp
next
  case (Cons g segs)
  show ?case
  proof (cases "segment_text L g")
    case (Inl e)
    then show ?thesis by (simp add: decode_parts_step del: decode_parts.simps)
  next
    case (Inr s)
    with Cons.prems have "\<not> list_all (\<lambda>g. \<not> isl (segment_text L g)) segs" by simp
    from Cons.IH [OF this, of "acc @ [s]"] Inr show ?thesis
      by (simp add: decode_parts_step del: decode_parts.simps)
  qed
qed

text \<open>
  C5, as the code has it. The Filename Decoder decodes each segment of \<open>decode_header\<close>
  with its declared charset, and with UTF-8 (lossy) when the charset is absent or empty,
  and concatenates the segments in order. When \<open>decode_header\<close> raises, or the decoding
  of any segment raises, as it does for a charset that the codec registry does not know,
  the result is the input string unchanged.
\<close>

theorem decode_rfc2047_filename_amended:
  "decode_rfc2047_filename L raw =
     (case decode_header L raw of
        Inl e \<Rightarrow> raw
      | Inr segs \<Rightarrow>
         (if list_all (\<lambda>g. \<not> isl (segment_text L g)) segs
          then concat (map (\<lambda>g. projr (segment_text L g)) segs)
          else raw))"
proof (cases "decode_header L raw")
  case (Inl e)
  then show ?thesis by (simp add: decode_rfc2047_filename_def)
next
  case (Inr segs)
  show ?thesis
  proof (cases "list_all (\<lambda>g. \<not> isl (segment_text L g)) segs")
    case True
    with Inr decode_parts_all [OF True, of "[]"] show ?thesis
      by (simp add: decode_rfc2047_filename_def)
  next
    case False
    from decode_parts_some_fails [OF False, of "[]"]
    obtain e where "decode_parts L segs [] = Inl e" by (cases "decode_parts L segs []") auto
    with Inr False show ?thesis by (simp add: decode_rfc2047_filename_def)
  qed
qed

text \<open>A UTF-8 encoded-word is decoded, a plain file name is returned as it is.\<close>

theorem decode_rfc2047_filename_amended_witness:
  "decode_rfc2047_filename example_lib ''=?utf-8?b?w6kucGRm?='' = CHR 0xC3 # CHR 0xA9 # ''.pdf''
   \<and> decode_rfc2047_filename example_lib ''document.pdf'' = ''document.pdf''"
proof -
  have u: "decode_header example_lib ''=?utf-8?b?w6kucGRm?=''
      = Inr [(Bytes (CHR 0xC3 # CHR 0xA9 # ''.pdf''), Some ''utf-8'')]"
    and d: "decode_header example_lib ''document.pdf'' = Inr [(Str ''document.pdf'', None)]"
    by (simp_all add: example_lib_def)
  have s: "segment_text example_lib (Bytes (CHR 0xC3 # CHR 0xA9 # ''.pdf''), Some ''utf-8'')
      = Inr (CHR 0xC3 # CHR 0xA9 # ''.pdf'')"
    by (simp add: example_lib_def is_ascii_def utf8_seq2_def utf8_cont_def in_range_def)
  from decode_rfc2047_filename_amended [of example_lib "''=?utf-8?b?w6kucGRm?=''"] u s
  have "decode_rfc2047_filename example_lib ''=?utf-8?b?w6kucGRm?=''
      = CHR 0xC3 # CHR 0xA9 # ''.pdf''"
    by simp
  moreover from decode_rfc2047_filename_amended [of example_lib "''document.pdf''"] d
  have "decode_rfc2047_filename example_lib ''document.pdf'' = ''document.pdf''"
    by simp
  ultimately show ?thesis by simp
qed

text \<open>
  C5 as stated fails: an encoded-word in a charset without a codec is not decoded as lossy
  UTF-8 (which would give \<open>abc\<close>); the \<open>LookupError\<close> is caught and the input comes
  back unchanged.
\<close>

theorem filename_decoder_counterexample:
  "decode_rfc2047_filename example_lib ''=?x-unknown?b?YWJj?='' = ''=?x-unknown?b?YWJj?=''
   \<and> reference_filename_decoder example_lib ''=?x-unknown?b?YWJj?='' = ''abc''
   \<and> decode_rfc2047_filename example_lib ''=?x-unknown?b?YWJj?=''
       \<noteq> reference_filename_decoder example_lib ''=?x-unknown?b?YWJj?=''"
  by (simp add: decode_rfc2047_filename_def reference_filename_decoder_def example_lib_def
      is_ascii_def)

section \<open>The Header Filename Resolver\<close>

lemma header_dict_snoc:
  "header_dict (hs @ [h]) =
     (header_dict hs)(str_lower (dict_get h ''name'' []) \<mapsto> dict_get h ''value'' [])"
  by (simp add: header_dict_def)

lemma last_header_value_snoc:
  "last_header_value (hs @ [h]) k =
     (if str_lower (dict_get h ''name'' []) = k then dict_get h ''value'' []
      else last_header_value hs k)"
  by (simp add: last_header_value_def Let_def)

lemma header_dict_lookup:
  "dict_get (header_dict hs) k [] = last_header_value hs k"
proof (induction hs rule: rev_induct)
  case Nil
  show ?case by (simp add: header_dict_def last_header_value_def dict_get_def)
next
  case (snoc h hs)
  then show ?case
    by (simp add: header_dict_snoc last_header_value_snoc dict_get_def)
qed

text \<open>A match of the parameter pattern has one non-empty group.\<close>

lemma match_value_groups:
  "match_value s = Some m \<Longrightarrow>
     (\<exists>g. g \<noteq> [] \<and> m = (Some g, None)) \<or> (\<exists>u. u \<noteq> [] \<and> m = (None, Some u))"
  by (auto simp: match_value_def Let_def split: list.splits if_splits option.splits)

lemma match_here_groups:
  "match_here kw s = Some m \<Longrightarrow>
     (\<exists>g. g \<noteq> [] \<and> m = (Some g, None)) \<or> (\<exists>u. u \<noteq> [] \<and> m = (None, Some u))"
  unfolding match_here_def
  by (auto split: option.splits list.splits if_splits dest: match_value_groups)

lemma re_search_groups:
  "re_search kw s = Some m \<Longrightarrow>
     (\<exists>g. g \<noteq> [] \<and> m = (Some g, None)) \<or> (\<exists>u. u \<noteq> [] \<and> m = (None, Some u))"
proof (induction s)
  case Nil
  then show ?case using match_here_groups [of kw "[]" m] by simp
next
  case (Cons c s)
  show ?case
  proof (cases "match_here kw (c # s)")
    case None
    with Cons show ?thesis by simp
  next
    case (Some m')
    with Cons.prems have "m' = m" by simp
    with Some show ?thesis using match_here_groups [of kw "c # s" m] by simp
  qed
qed

lemma match_here_Nil: "match_here kw [] = None"
  by (cases kw) (simp_all add: match_here_def)

lemma re_search_Nil: "re_search kw [] = None"
  by (simp add: match_here_Nil)

lemma header_rule_captured:
  "header_rule L kw v =
     (case captured kw v of
        None \<Rightarrow> None
      | Some x \<Rightarrow> Some (decode_rfc2047_filename L (str_strip x)))"
proof (cases "re_search kw v")
  case None
  then show ?thesis by (simp add: header_rule_def captured_def)
next
  case (Some m)
  then have "v \<noteq> []" using re_search_Nil [of kw] by auto
  moreover from re_search_groups [OF Some]
  have "truthy (group1_or_group2 m) \<and>
        group1_or_group2 m = (case fst m of Some q \<Rightarrow> Some q | None \<Rightarrow> snd m)"
    by (auto simp: group1_or_group2_def)
  ultimately show ?thesis using Some
    by (auto simp: header_rule_def captured_def split: option.splits)
qed

lemma extract_filename_reference:
  "extract_filename_from_headers L p =
     (case headers p of None \<Rightarrow> None | Some hs \<Rightarrow> reference_resolver L hs)"
proof (cases "headers p")
  case None
  then show ?thesis by (simp add: extract_filename_from_headers_def)
next
  case (Some hs)
  show ?thesis
  proof (cases hs)
    case Nil
    with Some show ?thesis
      by (simp add: extract_filename_from_headers_def reference_resolver_def
          last_header_value_def captured_def match_here_Nil)
  next
    case (Cons h hs')
    with Some have "truthy (headers p)" by simp
    with Some show ?thesis
      by (simp add: extract_filename_from_headers_def reference_resolver_def Let_def
          header_dict_lookup header_rule_captured split: option.splits)
  qed
qed

text \<open>
  C6. For every header sequence, \<open>extract_filename_from_headers\<close> is the reference
  resolver: the dict it builds maps a name, up to case, to the value of the last header of
  that name; the result is the trimmed and decoded \<open>filename\<close> or \<open>filename*\<close>
  parameter of Content-Disposition when the pattern matches there, only otherwise the
  \<open>name\<close> or \<open>name*\<close> parameter of Content-Type, and nothing when neither matches.
  With a Content-Disposition file name and a Content-Type name, Content-Disposition wins;
  of two Content-Type headers the later one is read.
\<close>

theorem header_filename_resolver:
  \<open>extract_filename_from_headers L p =
     (case headers p of None \<Rightarrow> None | Some hs \<Rightarrow> reference_resolver L hs)
   \<and> dict_get (header_dict hs) k [] = last_header_value hs k
   \<and> extract_filename_from_headers example_lib
       (MessagePayload ''application/pdf'' None b None
          (Some [header ''Content-Disposition'' ''attachment; filename="document.pdf"'',
                 header ''Content-Type'' ''application/pdf; name="other.pdf"'']))
       = Some ''document.pdf''
   \<and> extract_filename_from_headers example_lib
       (MessagePayload ''application/pdf'' None b None
          (Some [header ''Content-Disposition'' ''attachment'',
                 header ''content-type'' ''application/pdf; name="first.pdf"'',
                 header ''CONTENT-TYPE'' ''application/pdf; NAME*= other.pdf ; x=1'']))
       = Some ''other.pdf''\<close>
proof (intro conjI)
  show "extract_filename_from_headers L p =
     (case headers p of None \<Rightarrow> None | Some hs \<Rightarrow> reference_resolver L hs)"
    by (rule extract_filename_reference)
  show "dict_get (header_dict hs) k [] = last_header_value hs k"
    by (rule header_dict_lookup)
  show \<open>extract_filename_from_headers example_lib
       (MessagePayload ''application/pdf'' None b None
          (Some [header ''Content-Disposition'' ''attachment; filename="document.pdf"'',
                 header ''Content-Type'' ''application/pdf; name="other.pdf"'']))
       = Some ''document.pdf''\<close>
    by (subst extract_filename_reference) code_simp
  show \<open>extract_filename_from_headers example_lib
       (MessagePayload ''application/pdf'' None b None
          (Some [header ''Content-Disposition'' ''attachment'',
                 header ''content-type'' ''application/pdf; name="first.pdf"'',
                 header ''CONTENT-TYPE'' ''application/pdf; NAME*= other.pdf ; x=1'']))
       = Some ''other.pdf''\<close>
    by (subst extract_filename_reference) code_simp
qed

section \<open>The Part Tree Decoder: body text\<close>

lemma foldl_pass_step_Returned: "foldl pass_step (Returned t) cs = Returned t"
  by (induction cs) simp_all

lemma body_loop_pass:
  "body_loop cs plain html =
     pass_result (foldl pass_step (Running plain html) (filter (\<lambda>c. \<not> skipped c) cs))"
proof (induction cs arbitrary: plain html)
  case Nil
  then show ?case by simp
next
  case (Cons c cs)
  show ?case
  proof (cases "skipped c")
    case True
    with Cons show ?thesis by (simp add: skipped_def)
  next
    case False
    with Cons show ?thesis
      by (simp add: skipped_def is_text_plain_def is_text_html_def Let_def
          foldl_pass_step_Returned)
  qed
qed

lemma extract_body_text_unfold:
  "extract_body_text p =
     (if children p \<noteq> [] then body_loop (children p) [] []
      else if mime_type p = ''text/plain'' \<or> mime_type p = ''text/html''
        then decode_body_data p else [])"
  by (cases p) (simp add: children_def split: option.splits list.splits)

lemma decode_body_data_eq:
  "decode_body_data p =
     (if data (body p) \<noteq> None then decode_base64_text (the (data (body p))) else [])"
  by (cases "data (body p)") (auto simp: decode_body_data_def decode_base64_text_Nil)

lemma body_loop_skip:
  "skipped c \<Longrightarrow> body_loop (c # cs) plain html = body_loop cs plain html"
  by (simp add: skipped_def)

lemma body_loop_keep:
  "\<not> skipped c \<Longrightarrow> body_loop (c # cs) plain html =
     (if is_text_plain c then body_loop cs (plain @ extract_body_text c) html
      else if is_text_html c then body_loop cs plain (html @ extract_body_text c)
      else if extract_body_text c \<noteq> [] then
        (if plain = [] \<and> html = [] then extract_body_text c
         else body_loop cs (plain @ extract_body_text c) html)
      else body_loop cs plain html)"
  by (simp add: skipped_def Let_def)


text \<open>
  C4. \<open>extract_body_text\<close> is the reference recursion: on a container, the left-to-right
  pass over the children that are not skipped, which appends the text of a
  \<open>text/plain\<close> child to the plain accumulator and of a \<open>text/html\<close> child to the
  html accumulator, returns the non-empty text of any other child at once when both
  accumulators are empty and appends it to the plain accumulator otherwise, and ends with
  the plain accumulator if non-empty, else the html one; on a leaf, the Byte Decoder
  applied to the data when the MIME type is \<open>text/plain\<close> or \<open>text/html\<close> and the
  data are present, and the empty string otherwise.
\<close>

theorem extract_body_text_reference:
  "extract_body_text node = reference_body_text node"
  unfolding reference_body_text_def
  by (subst extract_body_text_unfold) (simp add: body_loop_pass decode_body_data_eq)

text \<open>The reference recursion on a nested message with an attachment.\<close>

theorem extract_body_text_reference_witness:
  "reference_body_text
     (container ''multipart/mixed''
        [container ''multipart/alternative''
           [leaf ''text/plain'' None (Some ''UGxhaW4gdGV4dA==''),
            leaf ''text/html'' None (Some ''PHA-SFRNTCB0ZXh0PC9wPg=='')],
         file_part ''application/pdf'' ''nested.pdf'' ''att_nested'' 1024]) = ''Plain text''"
proof -
  let ?p = "container ''multipart/mixed''
        [container ''multipart/alternative''
           [leaf ''text/plain'' None (Some ''UGxhaW4gdGV4dA==''),
            leaf ''text/html'' None (Some ''PHA-SFRNTCB0ZXh0PC9wPg=='')],
         file_part ''application/pdf'' ''nested.pdf'' ''att_nested'' 1024]"
  have "extract_body_text ?p = ''Plain text''" by code_simp
  with extract_body_text_reference [of ?p] show ?thesis by simp
qed





text \<open>
  C2, as the code has it. A child is skipped exactly when its attachment id is present
  (non-empty), whatever its file name and headers: a skipped child leaves the pass as it
  was, a child that is not skipped takes a step of the pass, every attachment-eligible
  child is skipped, and so is a child with an attachment id and no resolvable file name.
\<close>

theorem skip_by_attachment_id:
  "(skipped part \<longrightarrow> body_loop (part # rest) plain html = body_loop rest plain html)
   \<and> (\<not> skipped part \<longrightarrow> body_loop (part # rest) plain html =
        pass_result (foldl pass_step (Running plain html) (part # filter (\<lambda>c. \<not> skipped c) rest)))
   \<and> (attachment_eligible L part \<longrightarrow> skipped part)
   \<and> (skipped part \<longleftrightarrow>
        attachment_eligible L part \<or>
        (truthy (attachment_id (body part)) \<and> \<not> truthy (resolved_filename L part)))"
proof (intro conjI impI)
  assume "skipped part"
  then show "body_loop (part # rest) plain html = body_loop rest plain html"
    by (rule body_loop_skip)
next
  assume "\<not> skipped part"
  then show "body_loop (part # rest) plain html =
        pass_result (foldl pass_step (Running plain html) (part # filter (\<lambda>c. \<not> skipped c) rest))"
    by (subst body_loop_pass) simp
next
  assume "attachment_eligible L part"
  then show "skipped part" by (simp add: attachment_eligible_def skipped_def)
next
  show "skipped part \<longleftrightarrow>
        attachment_eligible L part \<or>
        (truthy (attachment_id (body part)) \<and> \<not> truthy (resolved_filename L part))"
    by (auto simp: attachment_eligible_def skipped_def)
qed

text \<open>A named PDF attachment is eligible and skipped; the plain part after it is read.\<close>

theorem skip_by_attachment_id_witness:
  "attachment_eligible example_lib (file_part ''application/pdf'' ''a.pdf'' ''att1'' 10)
   \<and> skipped (file_part ''application/pdf'' ''a.pdf'' ''att1'' 10)
   \<and> body_loop [file_part ''application/pdf'' ''a.pdf'' ''att1'' 10,
                 leaf ''text/plain'' None (Some ''SGk='')] [] [] = ''Hi''"
proof -
  let ?f = "file_part ''application/pdf'' ''a.pdf'' ''att1'' 10"
  let ?l = "leaf ''text/plain'' None (Some ''SGk='')"
  have e: "attachment_eligible example_lib ?f"
    by (simp add: attachment_eligible_def resolved_filename_def file_part_def)
  have n: "\<not> skipped ?l" by (simp add: skipped_def leaf_def)
  have t: "extract_body_text ?l = ''Hi''" by code_simp
  from skip_by_attachment_id [of ?f "[?l]" "[]" "[]" example_lib] e
  have s: "skipped ?f" and b: "body_loop [?f, ?l] [] [] = body_loop [?l] [] []" by blast+
  from skip_by_attachment_id [of ?l "[]" "[]" "[]" example_lib] n
  have "body_loop [?l] [] [] = pass_result (foldl pass_step (Running [] []) [?l])" by simp
  also have "\<dots> = ''Hi''" using t by (simp add: leaf_def)
  finally show ?thesis using e s b by simp
qed

text \<open>
  C2 as stated fails: a \<open>text/plain\<close> child with an attachment id, inline data and no
  resolvable file name is not attachment-eligible, and yet it is skipped: its text
  \<open>Hi\<close> does not reach the body of the container.
\<close>

theorem skip_counterexample:
  "\<not> attachment_eligible example_lib (leaf ''text/plain'' (Some ''att1'') (Some ''SGk=''))
   \<and> skipped (leaf ''text/plain'' (Some ''att1'') (Some ''SGk=''))
   \<and> extract_body_text (leaf ''text/plain'' (Some ''att1'') (Some ''SGk='')) = ''Hi''
   \<and> extract_body_text (container ''multipart/mixed''
        [leaf ''text/plain'' (Some ''att1'') (Some ''SGk='')]) = []"
proof (intro conjI)
  show "\<not> attachment_eligible example_lib (leaf ''text/plain'' (Some ''att1'') (Some ''SGk=''))"
    by (simp add: attachment_eligible_def resolved_filename_def leaf_def
        extract_filename_from_headers_def)
  show "skipped (leaf ''text/plain'' (Some ''att1'') (Some ''SGk=''))"
    by (simp add: skipped_def leaf_def)
  show "extract_body_text (leaf ''text/plain'' (Some ''att1'') (Some ''SGk='')) = ''Hi''"
    by code_simp
  show "extract_body_text (container ''multipart/mixed''
        [leaf ''text/plain'' (Some ''att1'') (Some ''SGk='')]) = []"
    by code_simp
qed

section \<open>The Part Tree Decoder: attachments\<close>

lemma map_filter_append:
  "List.map_filter f (xs @ ys) = List.map_filter f xs @ List.map_filter f ys"
  by (simp add: List.map_filter_def)



lemma attachments_loop_eq:
  "attachments_loop L ps acc = acc @ concat (map (extract_attachments L) ps)"
  by (induction ps arbitrary: acc) simp_all

lemma preorder_list_eq: "preorder_list qs = concat (map preorder qs)"
  by (induction qs) simp_all

lemma preorder_unfold: "preorder p = p # concat (map preorder (children p))"
  by (cases p) (simp add: children_def preorder_list_eq split: option.splits)

lemma extract_attachments_unfold:
  "extract_attachments L p =
     (case create_attachment L p of Some a \<Rightarrow> [a] | None \<Rightarrow> [])
       @ concat (map (extract_attachments L) (children p))"
proof (cases p)
  case (MessagePayload mt fn b ps hs)
  show ?thesis
  proof (cases ps)
    case None
    with MessagePayload show ?thesis by (simp add: children_def)
  next
    case (Some qs)
    with MessagePayload show ?thesis
      by (cases qs) (simp_all add: children_def attachments_loop_eq Let_def)
  qed
qed

lemma extract_attachments_map_filter:
  "extract_attachments L p = List.map_filter (create_attachment L) (preorder p)"
  and "concat (map (extract_attachments L) qs) = List.map_filter (create_attachment L) (preorder_list qs)"
proof (induction p and qs rule: preorder_preorder_list.induct)
  case (1 mt fn b ps hs)
  show ?case
  proof (cases ps)
    case None
    then show ?thesis
      by (subst extract_attachments_unfold) (simp add: children_def split: option.splits)
  next
    case (Some qs)
    with 1 have "concat (map (extract_attachments L) qs)
        = List.map_filter (create_attachment L) (preorder_list qs)" by simp
    with Some show ?thesis
      by (subst extract_attachments_unfold) (simp add: children_def split: option.splits)
  qed
next
  case 2
  then show ?case by simp
next
  case (3 q qs)
  then show ?case by (simp add: map_filter_append)
qed

lemma create_attachment_eligible:
  "create_attachment L p =
     (if attachment_eligible L p
      then Some \<lparr>a_attachment_id = the (attachment_id (body p)),
                 a_file_name = the (resolved_filename L p),
                 a_mime_type = mime_type p,
                 a_size = b_size (body p)\<rparr>
      else None)"
proof (cases "truthy (filename p)")
  case True
  then show ?thesis
    by (simp add: create_attachment_def attachment_eligible_def resolved_filename_def)
next
  case nf: False
  show ?thesis
  proof (cases "truthy (headers p)")
    case True
    with nf show ?thesis
      by (simp add: create_attachment_def attachment_eligible_def resolved_filename_def)
  next
    case False
    then have "extract_filename_from_headers L p = None"
      by (simp add: extract_filename_from_headers_def)
    with nf False show ?thesis
      by (simp add: create_attachment_def attachment_eligible_def resolved_filename_def)
  qed
qed

text \<open>
  C3. A node yields an \<open>Attachment\<close> with its attachment id, the resolved file name, its
  MIME type and its size if and only if it is attachment-eligible: the attachment id is
  present and a file name resolves, from \<open>filename\<close> if that is non-empty and from the
  header resolver only otherwise. \<open>extract_attachments\<close> emits that attachment, if any,
  for the node itself. A node with the attachment id \<open>att1\<close>, no file name and no
  headers yields no attachment.
\<close>

theorem attachment_iff_eligible:
  "create_attachment L p =
     (if attachment_eligible L p
      then Some \<lparr>a_attachment_id = the (attachment_id (body p)),
                 a_file_name = the (resolved_filename L p),
                 a_mime_type = mime_type p,
                 a_size = b_size (body p)\<rparr>
      else None)
   \<and> extract_attachments L p =
       (if attachment_eligible L p
        then [\<lparr>a_attachment_id = the (attachment_id (body p)),
                 a_file_name = the (resolved_filename L p),
                 a_mime_type = mime_type p,
                 a_size = b_size (body p)\<rparr>]
        else []) @ concat (map (extract_attachments L) (children p))
   \<and> \<not> attachment_eligible L (leaf mt (Some ''att1'') d)
   \<and> extract_attachments L (leaf mt (Some ''att1'') d) = []"
proof (intro conjI)
  show "create_attachment L p =
     (if attachment_eligible L p
      then Some \<lparr>a_attachment_id = the (attachment_id (body p)),
                 a_file_name = the (resolved_filename L p),
                 a_mime_type = mime_type p,
                 a_size = b_size (body p)\<rparr>
      else None)"
    by (rule create_attachment_eligible)
  show "extract_attachments L p =
       (if attachment_eligible L p
        then [\<lparr>a_attachment_id = the (attachment_id (body p)),
                 a_file_name = the (resolved_filename L p),
                 a_mime_type = mime_type p,
                 a_size = b_size (body p)\<rparr>]
        else []) @ concat (map (extract_attachments L) (children p))"
    by (subst extract_attachments_unfold) (simp add: create_attachment_eligible)
  show ne: "\<not> attachment_eligible L (leaf mt (Some ''att1'') d)"
    by (simp add: attachment_eligible_def resolved_filename_def leaf_def
        extract_filename_from_headers_def)
  show "extract_attachments L (leaf mt (Some ''att1'') d) = []"
    using ne by (subst extract_attachments_unfold)
      (simp add: create_attachment_eligible, simp add: leaf_def children_def)
qed

text \<open>A named part and a part named by its Content-Disposition header are emitted.\<close>

theorem attachment_iff_eligible_witness:
  \<open>extract_attachments example_lib (file_part ''application/pdf'' ''document.pdf'' ''att123'' 2048)
     = [\<lparr>a_attachment_id = ''att123'', a_file_name = ''document.pdf'',
          a_mime_type = ''application/pdf'', a_size = 2048\<rparr>]
   \<and> create_attachment example_lib
       (MessagePayload ''application/pdf'' None
          \<lparr>attachment_id = Some ''att123'', data = None, b_size = 1024\<rparr> None
          (Some [header ''Content-Disposition'' ''attachment; filename="document.pdf"'']))
     = Some \<lparr>a_attachment_id = ''att123'', a_file_name = ''document.pdf'',
          a_mime_type = ''application/pdf'', a_size = 1024\<rparr>\<close>
proof -
  let ?f = "file_part ''application/pdf'' ''document.pdf'' ''att123'' 2048"
  let ?h = \<open>MessagePayload ''application/pdf'' None
          \<lparr>attachment_id = Some ''att123'', data = None, b_size = 1024\<rparr> None
          (Some [header ''Content-Disposition'' ''attachment; filename="document.pdf"''])\<close>
  have f: "attachment_eligible example_lib ?f"
    "resolved_filename example_lib ?f = Some ''document.pdf''"
    by (simp_all add: attachment_eligible_def resolved_filename_def file_part_def)
  have "extract_filename_from_headers example_lib ?h = Some ''document.pdf''"
    by code_simp
  then have h: "attachment_eligible example_lib ?h"
    "resolved_filename example_lib ?h = Some ''document.pdf''"
    by (simp_all add: attachment_eligible_def resolved_filename_def)
  from attachment_iff_eligible [of example_lib ?f] f
  have "extract_attachments example_lib ?f
     = [\<lparr>a_attachment_id = ''att123'', a_file_name = ''document.pdf'',
          a_mime_type = ''application/pdf'', a_size = 2048\<rparr>]"
    by (simp add: file_part_def children_def)
  moreover from attachment_iff_eligible [of example_lib ?h] h
  have "create_attachment example_lib ?h
     = Some \<lparr>a_attachment_id = ''att123'', a_file_name = ''document.pdf'',
          a_mime_type = ''application/pdf'', a_size = 1024\<rparr>"
    by simp
  ultimately show ?thesis by simp
qed

text \<open>
  C7. The attachments of a tree are those of its nodes in depth-first, left-to-right
  order, a node before its children: the node's own attachment, if any, comes first, then
  the attachments of the children in the order of \<open>parts\<close>, and every child is visited
  whether or not the node itself is an attachment.
\<close>

theorem extract_attachments_depth_first:
  "extract_attachments L p = List.map_filter (create_attachment L) (preorder p)
   \<and> preorder p = p # concat (map preorder (children p))
   \<and> extract_attachments L p =
       (case create_attachment L p of Some a \<Rightarrow> [a] | None \<Rightarrow> [])
         @ concat (map (extract_attachments L) (children p))"
  using extract_attachments_map_filter(1) preorder_unfold extract_attachments_unfold
  by blast

text \<open>A node that is an attachment and has children, one of them a container.\<close>

theorem extract_attachments_depth_first_witness:
  "map a_file_name
     (extract_attachments example_lib
        (MessagePayload ''multipart/mixed'' (Some ''top.bin'')
           \<lparr>attachment_id = Some ''a0'', data = None, b_size = 1\<rparr>
           (Some [file_part ''application/pdf'' ''one.pdf'' ''a1'' 1,
                  container ''multipart/related''
                    [file_part ''image/png'' ''two.png'' ''a2'' 2,
                     leaf ''text/plain'' None (Some ''dGV4dA==''),
                     file_part ''image/png'' ''three.png'' ''a3'' 3],
                  file_part ''application/pdf'' ''four.pdf'' ''a4'' 4])
           None))
   = [''top.bin'', ''one.pdf'', ''two.png'', ''three.png'', ''four.pdf'']"
proof -
  let ?p = "MessagePayload ''multipart/mixed'' (Some ''top.bin'')
           \<lparr>attachment_id = Some ''a0'', data = None, b_size = 1\<rparr>
           (Some [file_part ''application/pdf'' ''one.pdf'' ''a1'' 1,
                  container ''multipart/related''
                    [file_part ''image/png'' ''two.png'' ''a2'' 2,
                     leaf ''text/plain'' None (Some ''dGV4dA==''),
                     file_part ''image/png'' ''three.png'' ''a3'' 3],
                  file_part ''application/pdf'' ''four.pdf'' ''a4'' 4])
           None"
  have e: "map a_file_name (List.map_filter (create_attachment example_lib) (preorder ?p))
      = [''top.bin'', ''one.pdf'', ''two.png'', ''three.png'', ''four.pdf'']"
    by code_simp
  have "extract_attachments example_lib ?p
      = List.map_filter (create_attachment example_lib) (preorder ?p)"
    using extract_attachments_depth_first [of example_lib ?p] by (rule conjunct1)
  then show ?thesis using e by (simp only:)
qed

text \<open>
  C10. An attachment id that is the empty string is treated as an absent one:
  \<open>create_attachment\<close> returns \<open>None\<close>, so \<open>extract_attachments\<close> yields the
  attachments of the children only; as a child the node is not skipped, and the pass of
  \<open>extract_body_text\<close> goes on as it does for the same node without an attachment id, so
  that the text of the node reaches the body.
\<close>

theorem empty_attachment_id_is_absent:
  "create_attachment L (MessagePayload mt fn (b\<lparr>attachment_id := Some []\<rparr>) ps hs) = None
   \<and> extract_attachments L (MessagePayload mt fn (b\<lparr>attachment_id := Some []\<rparr>) ps hs)
       = concat (map (extract_attachments L) (case ps of None \<Rightarrow> [] | Some qs \<Rightarrow> qs))
   \<and> \<not> skipped (MessagePayload mt fn (b\<lparr>attachment_id := Some []\<rparr>) ps hs)
   \<and> body_loop (MessagePayload mt fn (b\<lparr>attachment_id := Some []\<rparr>) ps hs # rest) plain html
       = body_loop (MessagePayload mt fn (b\<lparr>attachment_id := None\<rparr>) ps hs # rest) plain html
   \<and> extract_body_text (container ''multipart/mixed''
        [leaf ''text/plain'' (Some []) (Some ''SGk='')]) = ''Hi''"
proof (intro conjI)
  show c: "create_attachment L (MessagePayload mt fn (b\<lparr>attachment_id := Some []\<rparr>) ps hs) = None"
    by (simp add: create_attachment_def)
  show "extract_attachments L (MessagePayload mt fn (b\<lparr>attachment_id := Some []\<rparr>) ps hs)
       = concat (map (extract_attachments L) (case ps of None \<Rightarrow> [] | Some qs \<Rightarrow> qs))"
    by (subst extract_attachments_unfold) (simp add: c children_def)
  show "\<not> skipped (MessagePayload mt fn (b\<lparr>attachment_id := Some []\<rparr>) ps hs)"
    by (simp add: skipped_def)
  show "body_loop (MessagePayload mt fn (b\<lparr>attachment_id := Some []\<rparr>) ps hs # rest) plain html
       = body_loop (MessagePayload mt fn (b\<lparr>attachment_id := None\<rparr>) ps hs # rest) plain html"
  proof -
    let ?e = "MessagePayload mt fn (b\<lparr>attachment_id := Some []\<rparr>) ps hs"
    let ?n = "MessagePayload mt fn (b\<lparr>attachment_id := None\<rparr>) ps hs"
    have t: "extract_body_text ?e = extract_body_text ?n"
      by (simp add: decode_body_data_def split: option.splits list.splits)
    have m: "is_text_plain ?e = is_text_plain ?n" "is_text_html ?e = is_text_html ?n"
      by (simp_all add: is_text_plain_def is_text_html_def)
    have k: "\<not> skipped ?e" "\<not> skipped ?n" by (simp_all add: skipped_def)
    show ?thesis by (simp only: body_loop_keep [OF k(1)] body_loop_keep [OF k(2)] t m)
  qed
  show "extract_body_text (container ''multipart/mixed''
        [leaf ''text/plain'' (Some []) (Some ''SGk='')]) = ''Hi''"
    by code_simp
qed

section \<open>Totality\<close>






end
